theory Spec2Isabelle
  imports Complex_Main
begin

section \<open>Integrated sampling and spreading timeline (timeline_app.py)\<close>

text \<open>
  The script reads widget values, derives two daily rates (hectares per workday),
  runs a day-by-day loop that samples and spreads area, and scans the resulting
  table for the two finish dates.

  Numbers: Python floats are modelled as exact reals (no rounding, no infinities,
  no NaN); Python ints are \<open>int\<close>; the loop index produced by \<open>range\<close> is a
  \<open>nat\<close>. A calendar date is its day number (an \<open>int\<close>), so that
  \<open>start_date + timedelta(days=d)\<close> is \<open>start_date + int d\<close>; the range check of
  that addition is \<open>current_date\<close> below.
\<close>

subsection \<open>Errors the script can raise\<close>

datatype py_error = ZeroDivisionError | KeyError | OverflowError

text \<open>Python's \<open>a / b\<close> on floats: raises on a zero divisor.\<close>

definition py_truediv :: "real \<Rightarrow> real \<Rightarrow> py_error + real" where
  "py_truediv a b = (if b = 0 then Inl ZeroDivisionError else Inr (a / b))"

subsection \<open>Derived density and rates (lines 66-88)\<close>

text \<open>\<open>points_per_ha = (total_points / total_area_ha) if total_area_ha > 0 else 0.0\<close>\<close>

definition points_per_ha :: "int \<Rightarrow> real \<Rightarrow> py_error + real" where
  "points_per_ha total_points total_area =
     (if total_area > 0 then py_truediv (real_of_int total_points) total_area else Inr 0)"

text \<open>
  \<open>points_per_week_team = sampling_people * points_per_person_per_week\<close>,
  \<open>points_per_workday_team = points_per_week_team / float(workdays_per_week)\<close>,
  \<open>sampling_friction = 1.0 + sampling_contingency_pct / 100.0\<close>,
  \<open>effective_points_per_workday = points_per_workday_team / sampling_friction\<close>.
  Neither division is guarded in the source.
\<close>

definition effective_points_per_workday :: "int \<Rightarrow> real \<Rightarrow> int \<Rightarrow> real \<Rightarrow> py_error + real" where
  "effective_points_per_workday sampling_people points_per_person_per_week wpw sampling_contingency_pct =
     (let points_per_week_team = real_of_int sampling_people * points_per_person_per_week
      in case py_truediv points_per_week_team (real_of_int wpw) of
           Inl e \<Rightarrow> Inl e
         | Inr points_per_workday_team \<Rightarrow>
             (let sampling_friction = 1 + sampling_contingency_pct / 100
              in py_truediv points_per_workday_team sampling_friction))"

text \<open>
  \<open>effective_sampling_ha_per_workday =
     effective_points_per_workday / points_per_ha if points_per_ha > 0 else 0.0\<close>
\<close>

definition effective_sampling_ha_per_workday_of :: "real \<Rightarrow> real \<Rightarrow> py_error + real" where
  "effective_sampling_ha_per_workday_of effective_points pph =
     (if pph > 0 then py_truediv effective_points pph else Inr 0)"

text \<open>\<open>spreading_ha_per_workday = (tonnes_per_day / t_per_ha) if t_per_ha > 0 else 0.0\<close>\<close>

definition spreading_ha_per_workday_of :: "real \<Rightarrow> real \<Rightarrow> py_error + real" where
  "spreading_ha_per_workday_of tonnes_per_day t_per_ha =
     (if t_per_ha > 0 then py_truediv tonnes_per_day t_per_ha else Inr 0)"

text \<open>The widget values the derivation reads.\<close>

record inputs =
  in_total_area_ha :: real
  in_total_points :: int
  in_sampling_people :: int
  in_points_per_person_per_week :: real
  in_workdays_per_week :: int
  in_sampling_contingency_pct :: real
  in_t_per_ha :: real
  in_tonnes_per_day :: real

text \<open>
  The three derived values in the order the script computes them:
  \<open>(points_per_ha, effective_sampling_ha_per_workday, spreading_ha_per_workday)\<close>;
  the first error raised aborts the script.
\<close>

definition derived_rates :: "inputs \<Rightarrow> py_error + (real \<times> real \<times> real)" where
  "derived_rates i =
     (case points_per_ha (in_total_points i) (in_total_area_ha i) of
        Inl e \<Rightarrow> Inl e
      | Inr pph \<Rightarrow>
         (case effective_points_per_workday (in_sampling_people i) (in_points_per_person_per_week i)
                 (in_workdays_per_week i) (in_sampling_contingency_pct i) of
            Inl e \<Rightarrow> Inl e
          | Inr epw \<Rightarrow>
             (case effective_sampling_ha_per_workday_of epw pph of
                Inl e \<Rightarrow> Inl e
              | Inr samp \<Rightarrow>
                 (case spreading_ha_per_workday_of (in_tonnes_per_day i) (in_t_per_ha i) of
                    Inl e \<Rightarrow> Inl e
                  | Inr spr \<Rightarrow> Inr (pph, samp, spr)))))"

text \<open>The ranges the widgets enforce (\<open>min_value\<close> and the select box).\<close>

definition widget_ranges :: "inputs \<Rightarrow> bool" where
  "widget_ranges i \<longleftrightarrow>
     0 \<le> in_total_area_ha i \<and> 0 \<le> in_total_points i \<and> 1 \<le> in_sampling_people i \<and>
     1 \<le> in_points_per_person_per_week i \<and> in_workdays_per_week i \<in> {5, 6, 7} \<and>
     0 \<le> in_sampling_contingency_pct i \<and> 1 / 10 \<le> in_t_per_ha i \<and> 0 \<le> in_tonnes_per_day i"

subsection \<open>The simulation (lines 101-149)\<close>

text \<open>The module-level values the loop reads.\<close>

record config =
  total_area_ha :: real
  effective_sampling_ha_per_workday :: real
  spreading_ha_per_workday :: real
  workdays_per_week :: int
  spreading_lag_days :: int
  start_date :: int
  max_sim_days :: int

text \<open>One dictionary appended to \<open>rows\<close>.\<close>

record row =
  day :: nat
  date :: int
  workday :: bool
  sampled_today_ha :: real
  spread_today_ha :: real
  sampled_cum_ha :: real
  spread_cum_ha :: real
  backlog_ha :: real

definition is_workday :: "int \<Rightarrow> int \<Rightarrow> bool" where
  "is_workday day_index wpw \<longleftrightarrow> (day_index mod 7) < wpw"

text \<open>Lines 119-122: returns \<open>(sampled_today, sampled_cum)\<close>.\<close>

definition sampling_step :: "config \<Rightarrow> bool \<Rightarrow> real \<Rightarrow> real \<times> real" where
  "sampling_step c wd sampled_cum =
     (if wd \<and> sampled_cum < total_area_ha c then
        (let sampled_today = min (effective_sampling_ha_per_workday c) (total_area_ha c - sampled_cum)
         in (sampled_today, sampled_cum + sampled_today))
      else (0, sampled_cum))"

text \<open>Lines 125-130: returns \<open>(spread_today, spread_cum)\<close>.\<close>

definition spreading_step :: "config \<Rightarrow> nat \<Rightarrow> bool \<Rightarrow> real \<Rightarrow> real \<Rightarrow> real \<times> real" where
  "spreading_step c d wd sampled_cum spread_cum =
     (if wd \<and> int d \<ge> spreading_lag_days c then
        (let ready_backlog = max (sampled_cum - spread_cum) 0
         in if ready_backlog > 0 \<and> spread_cum < total_area_ha c then
              (let spread_today = min (spreading_ha_per_workday c)
                                    (min ready_backlog (total_area_ha c - spread_cum))
               in (spread_today, spread_cum + spread_today))
            else (0, spread_cum))
      else (0, spread_cum))"

text \<open>
  The loop body up to \<open>rows.append\<close>, for day \<open>d\<close> entered with the running totals
  \<open>sampled_cum\<close> and \<open>spread_cum\<close>. The totals after the day are the row's
  \<open>sampled_cum_ha\<close> and \<open>spread_cum_ha\<close>.
\<close>

definition day_step :: "config \<Rightarrow> nat \<Rightarrow> real \<Rightarrow> real \<Rightarrow> row" where
  "day_step c d sampled_cum spread_cum =
     (let current_date = start_date c + int d;
          wd = is_workday (int d) (workdays_per_week c);
          (sampled_today, sampled_cum') = sampling_step c wd sampled_cum;
          (spread_today, spread_cum') = spreading_step c d wd sampled_cum' spread_cum;
          backlog = max (sampled_cum' - spread_cum') 0
      in \<lparr> day = d, date = current_date, workday = wd,
           sampled_today_ha = sampled_today, spread_today_ha = spread_today,
           sampled_cum_ha = sampled_cum', spread_cum_ha = spread_cum',
           backlog_ha = backlog \<rparr>)"

text \<open>The test of line 148, \<open>spread_cum >= total_area_ha - 1e-9\<close>, on an emitted row.\<close>

definition fully_spread :: "config \<Rightarrow> row \<Rightarrow> bool" where
  "fully_spread c r \<longleftrightarrow> spread_cum_ha r \<ge> total_area_ha c - 1 / 10 ^ 9"

text \<open>
  \<open>for d in range(int(max_sim_days))\<close> from day \<open>d\<close> on, with \<open>break\<close> after the
  row of the first fully spread day; the result is the rows appended from \<open>d\<close> on.
\<close>

function sim_loop :: "config \<Rightarrow> nat \<Rightarrow> real \<Rightarrow> real \<Rightarrow> row list" where
  "sim_loop c d sampled_cum spread_cum =
     (if d < nat (max_sim_days c) then
        (let r = day_step c d sampled_cum spread_cum
         in if fully_spread c r then [r]
            else r # sim_loop c (d + 1) (sampled_cum_ha r) (spread_cum_ha r))
      else [])"
  by pat_completeness auto
termination
  by (relation "measure (\<lambda>(c, d, sampled_cum, spread_cum). nat (max_sim_days c) - d)") auto

declare sim_loop.simps [simp del]

text \<open>\<open>rows = []\<close>, \<open>sampled_cum = 0.0\<close>, \<open>spread_cum = 0.0\<close>, then the loop.\<close>

definition simulate :: "config \<Rightarrow> row list" where
  "simulate c = sim_loop c 0 0 0"

subsection \<open>The loop with the date arithmetic of line 115 checked\<close>

text \<open>
  \<open>current_date = start_date + timedelta(days=d)\<close>: \<open>timedelta\<close> raises
  \<open>OverflowError\<close> for more than 999999999 days, and the addition raises
  \<open>OverflowError\<close> when the result is outside 0001-01-01 .. 9999-12-31, the day numbers
  1 .. 3652059.
\<close>

definition current_date :: "config \<Rightarrow> nat \<Rightarrow> py_error + int" where
  "current_date c d =
     (if 999999999 < int d then Inl OverflowError
      else if start_date c + int d < 1 \<or> 3652059 < start_date c + int d then Inl OverflowError
      else Inr (start_date c + int d))"

text \<open>
  The loop as the script runs it: the date of day \<open>d\<close> is computed first and an
  \<open>OverflowError\<close> there aborts the script, so that no table is produced. The stop test
  of line 148 compares \<open>spread_cum\<close> with the double that \<open>total_area_ha - 1e-9\<close>
  evaluates to; that double is the parameter \<open>thr\<close>, so what is proved of this loop
  holds for whatever value the subtraction rounds to.
\<close>

function run_loop :: "config \<Rightarrow> real \<Rightarrow> nat \<Rightarrow> real \<Rightarrow> real \<Rightarrow> py_error + row list" where
  "run_loop c thr d sampled_cum spread_cum =
     (if d < nat (max_sim_days c) then
        (case current_date c d of
           Inl e \<Rightarrow> Inl e
         | Inr _ \<Rightarrow>
             (let r = day_step c d sampled_cum spread_cum
              in if spread_cum_ha r \<ge> thr then Inr [r]
                 else (case run_loop c thr (d + 1) (sampled_cum_ha r) (spread_cum_ha r) of
                         Inl e \<Rightarrow> Inl e
                       | Inr rs \<Rightarrow> Inr (r # rs))))
      else Inr [])"
  by pat_completeness auto
termination
  by (relation "measure (\<lambda>(c, thr, d, sampled_cum, spread_cum). nat (max_sim_days c) - d)") auto

declare run_loop.simps [simp del]


subsection \<open>The finish-date scan (lines 159-166)\<close>

text \<open>
  \<open>df = pd.DataFrame(rows)\<close> has no columns when \<open>rows\<close> is empty, and
  \<open>df["sampled_cum_ha"]\<close> then raises \<open>KeyError\<close>. Otherwise the date of the first
  row at or above the threshold, or \<open>None\<close>.
\<close>

definition sampling_finish_date :: "config \<Rightarrow> row list \<Rightarrow> py_error + int option" where
  "sampling_finish_date c rows =
     (if rows = [] then Inl KeyError
      else case filter (\<lambda>r. sampled_cum_ha r \<ge> total_area_ha c - 1 / 10 ^ 9) rows of
             [] \<Rightarrow> Inr None
           | r # _ \<Rightarrow> Inr (Some (date r)))"

definition spreading_finish_date :: "config \<Rightarrow> row list \<Rightarrow> py_error + int option" where
  "spreading_finish_date c rows =
     (if rows = [] then Inl KeyError
      else case filter (\<lambda>r. spread_cum_ha r \<ge> total_area_ha c - 1 / 10 ^ 9) rows of
             [] \<Rightarrow> Inr None
           | r # _ \<Rightarrow> Inr (Some (date r)))"

subsection \<open>Scenarios of the specification\<close>

text \<open>
  Scenario B (and C, with a lag): 100 ha, sampling 20 ha and spreading 5 ha per workday,
  seven workdays a week; the start date and the day cap are left open.
\<close>

definition scenario_B :: "int \<Rightarrow> int \<Rightarrow> int \<Rightarrow> config" where
  "scenario_B lag s n =
     \<lparr> total_area_ha = 100, effective_sampling_ha_per_workday = 20,
       spreading_ha_per_workday = 5, workdays_per_week = 7, spreading_lag_days = lag,
       start_date = s, max_sim_days = n \<rparr>"

text \<open>Scenario D: 100 ha, both rates 10 ha per workday, five workdays a week, no lag.\<close>

definition scenario_D :: "int \<Rightarrow> int \<Rightarrow> config" where
  "scenario_D s n =
     \<lparr> total_area_ha = 100, effective_sampling_ha_per_workday = 10,
       spreading_ha_per_workday = 10, workdays_per_week = 5, spreading_lag_days = 0,
       start_date = s, max_sim_days = n \<rparr>"

text \<open>Zero total area with the rates of scenario B and 30 days at most.\<close>

definition zero_area_config :: config where
  "zero_area_config =
     \<lparr> total_area_ha = 0, effective_sampling_ha_per_workday = 20,
       spreading_ha_per_workday = 5, workdays_per_week = 5, spreading_lag_days = 1,
       start_date = 0, max_sim_days = 30 \<rparr>"

text \<open>The widgets' default values, but with a total area of 0.\<close>

definition zero_area_inputs :: inputs where
  "zero_area_inputs =
     \<lparr> in_total_area_ha = 0, in_total_points = 13545, in_sampling_people = 5,
       in_points_per_person_per_week = 519, in_workdays_per_week = 5,
       in_sampling_contingency_pct = 10, in_t_per_ha = 40, in_tonnes_per_day = 80 \<rparr>"

text \<open>A row written positionally; the backlog is the difference of the two totals.\<close>

definition mk_row :: "int \<Rightarrow> nat \<Rightarrow> bool \<Rightarrow> real \<Rightarrow> real \<Rightarrow> real \<Rightarrow> real \<Rightarrow> row" where
  "mk_row s d wd st pt sc pc =
     \<lparr> day = d, date = s + int d, workday = wd, sampled_today_ha = st, spread_today_ha = pt,
       sampled_cum_ha = sc, spread_cum_ha = pc, backlog_ha = sc - pc \<rparr>"




text \<open>The running totals with which day \<open>i\<close> is entered, read off the emitted rows.\<close>

definition sampled_before :: "row list \<Rightarrow> nat \<Rightarrow> real" where
  "sampled_before rows i = (if i = 0 then 0 else sampled_cum_ha (rows ! (i - 1)))"

definition spread_before :: "row list \<Rightarrow> nat \<Rightarrow> real" where
  "spread_before rows i = (if i = 0 then 0 else spread_cum_ha (rows ! (i - 1)))"

section \<open>Properties of the loop body\<close>

lemma day_step_fields:
  "day (day_step c d sc pc) = d"
  "date (day_step c d sc pc) = start_date c + int d"
  "workday (day_step c d sc pc) = is_workday (int d) (workdays_per_week c)"
  "sampled_today_ha (day_step c d sc pc) =
     fst (sampling_step c (is_workday (int d) (workdays_per_week c)) sc)"
  "sampled_cum_ha (day_step c d sc pc) =
     snd (sampling_step c (is_workday (int d) (workdays_per_week c)) sc)"
  "spread_today_ha (day_step c d sc pc) =
     fst (spreading_step c d (is_workday (int d) (workdays_per_week c))
            (snd (sampling_step c (is_workday (int d) (workdays_per_week c)) sc)) pc)"
  "spread_cum_ha (day_step c d sc pc) =
     snd (spreading_step c d (is_workday (int d) (workdays_per_week c))
            (snd (sampling_step c (is_workday (int d) (workdays_per_week c)) sc)) pc)"
  "backlog_ha (day_step c d sc pc) =
     max (sampled_cum_ha (day_step c d sc pc) - spread_cum_ha (day_step c d sc pc)) 0"
  by (simp_all add: day_step_def Let_def split: prod.splits)

lemma sampling_step_sum: "snd (sampling_step c wd sc) = sc + fst (sampling_step c wd sc)"
  by (simp add: sampling_step_def Let_def)

lemma sampling_step_nonneg:
  "0 \<le> effective_sampling_ha_per_workday c \<Longrightarrow> 0 \<le> fst (sampling_step c wd sc)"
  by (simp add: sampling_step_def Let_def)

lemma sampling_step_bound: "sc \<le> total_area_ha c \<Longrightarrow> snd (sampling_step c wd sc) \<le> total_area_ha c"
  by (auto simp add: sampling_step_def Let_def min_def)

lemma sampling_step_off: "fst (sampling_step c False sc) = 0"
  by (simp add: sampling_step_def)

lemma spreading_step_sum:
  "snd (spreading_step c d wd sc pc) = pc + fst (spreading_step c d wd sc pc)"
  by (simp add: spreading_step_def Let_def)

lemma spreading_step_nonneg:
  "0 \<le> spreading_ha_per_workday c \<Longrightarrow> 0 \<le> fst (spreading_step c d wd sc pc)"
  by (simp add: spreading_step_def Let_def)

lemma spreading_step_le_sampled: "pc \<le> sc \<Longrightarrow> snd (spreading_step c d wd sc pc) \<le> sc"
  by (auto simp add: spreading_step_def Let_def min_def max_def)

lemma spreading_step_bound:
  "pc \<le> total_area_ha c \<Longrightarrow> snd (spreading_step c d wd sc pc) \<le> total_area_ha c"
  by (auto simp add: spreading_step_def Let_def min_def max_def)

lemma spreading_step_off: "fst (spreading_step c d False sc pc) = 0"
  by (simp add: spreading_step_def)

lemma spreading_step_lag: "int d < spreading_lag_days c \<Longrightarrow> fst (spreading_step c d wd sc pc) = 0"
  by (simp add: spreading_step_def)

lemma day_step_ordered:
  assumes "0 \<le> effective_sampling_ha_per_workday c" and "pc \<le> sc"
  shows "spread_cum_ha (day_step c d sc pc) \<le> sampled_cum_ha (day_step c d sc pc)"
proof -
  let ?wd = "is_workday (int d) (workdays_per_week c)"
  have "sc \<le> snd (sampling_step c ?wd sc)"
    using sampling_step_nonneg [OF assms(1), of ?wd sc] by (simp add: sampling_step_sum)
  with assms(2) have "pc \<le> snd (sampling_step c ?wd sc)" by linarith
  then show ?thesis
    by (simp add: day_step_fields spreading_step_le_sampled)
qed

lemma day_step_bounded:
  assumes "sc \<le> total_area_ha c" and "pc \<le> total_area_ha c"
  shows "sampled_cum_ha (day_step c d sc pc) \<le> total_area_ha c \<and>
         spread_cum_ha (day_step c d sc pc) \<le> total_area_ha c"
  using assms by (simp add: day_step_fields sampling_step_bound spreading_step_bound)

lemma day_step_mono:
  assumes "0 \<le> effective_sampling_ha_per_workday c" and "0 \<le> spreading_ha_per_workday c"
  shows "sc \<le> sampled_cum_ha (day_step c d sc pc) \<and> pc \<le> spread_cum_ha (day_step c d sc pc)"
proof -
  let ?wd = "is_workday (int d) (workdays_per_week c)"
  have "sc \<le> snd (sampling_step c ?wd sc)"
    using sampling_step_nonneg [OF assms(1), of ?wd sc] by (simp add: sampling_step_sum)
  moreover have "pc \<le> snd (spreading_step c d ?wd (snd (sampling_step c ?wd sc)) pc)"
    using spreading_step_nonneg [OF assms(2), of d ?wd "snd (sampling_step c ?wd sc)" pc]
    by (simp add: spreading_step_sum)
  ultimately show ?thesis by (simp add: day_step_fields)
qed

section \<open>Properties of the loop\<close>

lemma sim_loop_Nil: "sim_loop c d sc pc = [] \<longleftrightarrow> \<not> d < nat (max_sim_days c)"
  by (subst sim_loop.simps) (simp add: Let_def)

lemma sim_loop_hd:
  "d < nat (max_sim_days c) \<Longrightarrow> sim_loop c d sc pc ! 0 = day_step c d sc pc"
  by (subst sim_loop.simps) (simp add: Let_def)

lemma sim_loop_length: "length (sim_loop c d sc pc) \<le> nat (max_sim_days c) - d"
proof (induction c d sc pc rule: sim_loop.induct)
  case (1 c d sc pc)
  show ?case
  proof (cases "d < nat (max_sim_days c)")
    case False
    then show ?thesis by (simp add: sim_loop.simps)
  next
    case True
    show ?thesis
    proof (cases "fully_spread c (day_step c d sc pc)")
      case True
      with \<open>d < nat (max_sim_days c)\<close> show ?thesis
        by (subst sim_loop.simps) (simp add: Let_def)
    next
      case False
      from "1.IH" [OF True refl False]
      have "length (sim_loop c (d + 1) (sampled_cum_ha (day_step c d sc pc))
              (spread_cum_ha (day_step c d sc pc))) \<le> nat (max_sim_days c) - (d + 1)" .
      with True False show ?thesis
        by (subst sim_loop.simps) (simp add: Let_def)
    qed
  qed
qed

lemma sim_loop_Suc:
  "Suc i < length (sim_loop c d sc pc) \<Longrightarrow>
     sim_loop c d sc pc ! Suc i =
       day_step c (d + Suc i) (sampled_cum_ha (sim_loop c d sc pc ! i))
         (spread_cum_ha (sim_loop c d sc pc ! i)) \<and>
     \<not> fully_spread c (sim_loop c d sc pc ! i)"
proof (induction c d sc pc arbitrary: i rule: sim_loop.induct)
  case (1 c d sc pc)
  let ?r = "day_step c d sc pc"
  let ?rest = "sim_loop c (d + 1) (sampled_cum_ha ?r) (spread_cum_ha ?r)"
  from "1.prems" have dlt: "d < nat (max_sim_days c)"
    using sim_loop_Nil [of c d sc pc] by auto
  have nf: "\<not> fully_spread c ?r"
  proof
    assume "fully_spread c ?r"
    with dlt have "sim_loop c d sc pc = [?r]"
      by (subst sim_loop.simps) (simp add: Let_def)
    with "1.prems" show False by simp
  qed
  from dlt nf have unf: "sim_loop c d sc pc = ?r # ?rest"
    by (subst sim_loop.simps) (simp add: Let_def)
  show ?case
  proof (cases i)
    case 0
    from "1.prems" unf 0 have "?rest \<noteq> []" by auto
    then have "d + 1 < nat (max_sim_days c)"
      using sim_loop_Nil [of c "d + 1"] by blast
    then have "?rest ! 0 = day_step c (d + 1) (sampled_cum_ha ?r) (spread_cum_ha ?r)"
      by (rule sim_loop_hd)
    with unf 0 nf show ?thesis by simp
  next
    case (Suc j)
    from "1.prems" unf Suc have "Suc j < length ?rest" by simp
    from "1.IH" [OF dlt refl nf this] unf Suc show ?thesis by simp
  qed
qed

lemma sim_loop_last:
  "sim_loop c d sc pc \<noteq> [] \<Longrightarrow>
     length (sim_loop c d sc pc) = nat (max_sim_days c) - d \<or>
     fully_spread c (last (sim_loop c d sc pc))"
proof (induction c d sc pc rule: sim_loop.induct)
  case (1 c d sc pc)
  let ?r = "day_step c d sc pc"
  let ?rest = "sim_loop c (d + 1) (sampled_cum_ha ?r) (spread_cum_ha ?r)"
  from "1.prems" have dlt: "d < nat (max_sim_days c)"
    using sim_loop_Nil [of c d sc pc] by auto
  show ?case
  proof (cases "fully_spread c ?r")
    case True
    with dlt have "sim_loop c d sc pc = [?r]"
      by (subst sim_loop.simps) (simp add: Let_def)
    with True show ?thesis by simp
  next
    case False
    with dlt have unf: "sim_loop c d sc pc = ?r # ?rest"
      by (subst sim_loop.simps) (simp add: Let_def)
    show ?thesis
    proof (cases "?rest = []")
      case True
      then have "\<not> d + 1 < nat (max_sim_days c)"
        using sim_loop_Nil [of c "d + 1"] by blast
      with dlt have "nat (max_sim_days c) - d = 1" by linarith
      with unf True show ?thesis by simp
    next
      case nonempty: False
      from "1.IH" [OF dlt refl False nonempty] unf nonempty dlt show ?thesis
        by auto
    qed
  qed
qed

text \<open>Every emitted row is the loop body run on the totals of the row before it.\<close>

lemma simulate_nth:
  assumes "i < length (simulate c)"
  shows "simulate c ! i =
           day_step c i (sampled_before (simulate c) i) (spread_before (simulate c) i)"
proof (cases i)
  case 0
  from assms have "simulate c \<noteq> []" by auto
  then have "0 < nat (max_sim_days c)"
    using sim_loop_Nil [of c 0 0 0] by (auto simp: simulate_def)
  then show ?thesis
    using 0 by (simp add: simulate_def sim_loop_hd sampled_before_def spread_before_def)
next
  case (Suc j)
  with assms have "Suc j < length (sim_loop c 0 0 0)" by (simp add: simulate_def)
  from sim_loop_Suc [OF this] Suc show ?thesis
    by (simp add: simulate_def sampled_before_def spread_before_def)
qed

lemma simulate_not_done:
  "Suc i < length (simulate c) \<Longrightarrow> \<not> fully_spread c (simulate c ! i)"
  using sim_loop_Suc [of i c 0 0 0] by (simp add: simulate_def)

lemma simulate_ordered:
  assumes "0 \<le> effective_sampling_ha_per_workday c" and "i < length (simulate c)"
  shows "spread_cum_ha (simulate c ! i) \<le> sampled_cum_ha (simulate c ! i)"
  using assms(2)
proof (induction i)
  case 0
  have "spread_cum_ha (day_step c 0 0 0) \<le> sampled_cum_ha (day_step c 0 0 0)"
    by (rule day_step_ordered [OF assms(1)]) simp
  with simulate_nth [OF 0] show ?case
    by (simp add: sampled_before_def spread_before_def)
next
  case (Suc i)
  then have "spread_cum_ha (simulate c ! i) \<le> sampled_cum_ha (simulate c ! i)" by simp
  from day_step_ordered [OF assms(1) this, of "Suc i"] simulate_nth [OF Suc.prems]
  show ?case by (simp add: sampled_before_def spread_before_def)
qed

lemma simulate_bounded:
  assumes "0 \<le> total_area_ha c" and "i < length (simulate c)"
  shows "sampled_cum_ha (simulate c ! i) \<le> total_area_ha c \<and>
         spread_cum_ha (simulate c ! i) \<le> total_area_ha c"
  using assms(2)
proof (induction i)
  case 0
  from day_step_bounded [of 0 c 0 0] assms(1) simulate_nth [OF 0] show ?case
    by (simp add: sampled_before_def spread_before_def)
next
  case (Suc i)
  then have "sampled_cum_ha (simulate c ! i) \<le> total_area_ha c \<and>
             spread_cum_ha (simulate c ! i) \<le> total_area_ha c" by simp
  then have "sampled_cum_ha (simulate c ! i) \<le> total_area_ha c"
    and "spread_cum_ha (simulate c ! i) \<le> total_area_ha c" by simp_all
  from day_step_bounded [OF this, of "Suc i"] simulate_nth [OF Suc.prems]
  show ?case by (simp add: sampled_before_def spread_before_def)
qed

section \<open>Properties of the loop with checked dates\<close>


lemma current_date_ok:
  assumes "1 \<le> start_date c" and "start_date c + max_sim_days c - 1 \<le> 3652059"
    and "d < nat (max_sim_days c)"
  shows "current_date c d = Inr (start_date c + int d)"
  using assms by (auto simp add: current_date_def)

lemma run_loop_done:
  "\<not> d < nat (max_sim_days c) \<Longrightarrow> run_loop c thr d sc pc = Inr []"
  by (subst run_loop.simps) simp


lemma run_loop_stop:
  "d < nat (max_sim_days c) \<Longrightarrow> current_date c d = Inr x \<Longrightarrow>
   thr \<le> spread_cum_ha (day_step c d sc pc) \<Longrightarrow>
   run_loop c thr d sc pc = Inr [day_step c d sc pc]"
  by (subst run_loop.simps) (simp add: Let_def)

lemma run_loop_cont:
  "d < nat (max_sim_days c) \<Longrightarrow> current_date c d = Inr x \<Longrightarrow>
   \<not> thr \<le> spread_cum_ha (day_step c d sc pc) \<Longrightarrow>
   run_loop c thr d sc pc =
     (case run_loop c thr (d + 1) (sampled_cum_ha (day_step c d sc pc))
             (spread_cum_ha (day_step c d sc pc)) of
        Inl e \<Rightarrow> Inl e
      | Inr rs \<Rightarrow> Inr (day_step c d sc pc # rs))"
  by (subst run_loop.simps) (simp add: Let_def)






text \<open>
  With every date in range and the threshold taken as the exact difference, the checked
  loop produces the rows of \<open>sim_loop\<close>.
\<close>

lemma run_loop_sim_loop:
  "1 \<le> start_date c \<Longrightarrow> start_date c + max_sim_days c - 1 \<le> 3652059 \<Longrightarrow>
   run_loop c (total_area_ha c - 1 / 10 ^ 9) d sc pc = Inr (sim_loop c d sc pc)"
proof (induction c d sc pc rule: sim_loop.induct)
  case (1 c d sc pc)
  let ?r = "day_step c d sc pc"
  let ?thr = "total_area_ha c - 1 / 10 ^ 9"
  show ?case
  proof (cases "d < nat (max_sim_days c)")
    case False
    then show ?thesis by (simp add: run_loop_done sim_loop.simps)
  next
    case True
    note ok = current_date_ok [OF "1.prems" True]
    show ?thesis
    proof (cases "fully_spread c ?r")
      case stop: True
      then have "?thr \<le> spread_cum_ha ?r" by (simp add: fully_spread_def)
      from run_loop_stop [OF True ok this] True stop show ?thesis
        by (subst sim_loop.simps) (simp add: Let_def)
    next
      case go: False
      then have "\<not> ?thr \<le> spread_cum_ha ?r" by (simp add: fully_spread_def)
      from run_loop_cont [OF True ok this] "1.IH" [OF True refl go "1.prems"] True go
      show ?thesis
        by (subst sim_loop.simps) (simp add: Let_def)
    qed
  qed
qed

section \<open>The scenarios, run\<close>

lemmas sim_eval = simulate_def sim_loop.simps day_step_def sampling_step_def spreading_step_def
  is_workday_def fully_spread_def Let_def mk_row_def

lemma scenario_B_rows:
  "20 \<le> n \<Longrightarrow> simulate (scenario_B 0 s n) =
     [mk_row s 0 True 20 5 20 5, mk_row s 1 True 20 5 40 10, mk_row s 2 True 20 5 60 15,
      mk_row s 3 True 20 5 80 20, mk_row s 4 True 20 5 100 25, mk_row s 5 True 0 5 100 30,
      mk_row s 6 True 0 5 100 35, mk_row s 7 True 0 5 100 40, mk_row s 8 True 0 5 100 45,
      mk_row s 9 True 0 5 100 50, mk_row s 10 True 0 5 100 55, mk_row s 11 True 0 5 100 60,
      mk_row s 12 True 0 5 100 65, mk_row s 13 True 0 5 100 70, mk_row s 14 True 0 5 100 75,
      mk_row s 15 True 0 5 100 80, mk_row s 16 True 0 5 100 85, mk_row s 17 True 0 5 100 90,
      mk_row s 18 True 0 5 100 95, mk_row s 19 True 0 5 100 100]"
  by (simp add: sim_eval scenario_B_def)

lemma scenario_C_rows:
  "23 \<le> n \<Longrightarrow> simulate (scenario_B 3 s n) =
     [mk_row s 0 True 20 0 20 0, mk_row s 1 True 20 0 40 0, mk_row s 2 True 20 0 60 0,
      mk_row s 3 True 20 5 80 5, mk_row s 4 True 20 5 100 10, mk_row s 5 True 0 5 100 15,
      mk_row s 6 True 0 5 100 20, mk_row s 7 True 0 5 100 25, mk_row s 8 True 0 5 100 30,
      mk_row s 9 True 0 5 100 35, mk_row s 10 True 0 5 100 40, mk_row s 11 True 0 5 100 45,
      mk_row s 12 True 0 5 100 50, mk_row s 13 True 0 5 100 55, mk_row s 14 True 0 5 100 60,
      mk_row s 15 True 0 5 100 65, mk_row s 16 True 0 5 100 70, mk_row s 17 True 0 5 100 75,
      mk_row s 18 True 0 5 100 80, mk_row s 19 True 0 5 100 85, mk_row s 20 True 0 5 100 90,
      mk_row s 21 True 0 5 100 95, mk_row s 22 True 0 5 100 100]"
  by (simp add: sim_eval scenario_B_def)

lemma scenario_D_rows:
  "12 \<le> n \<Longrightarrow> simulate (scenario_D s n) =
     [mk_row s 0 True 10 10 10 10, mk_row s 1 True 10 10 20 20, mk_row s 2 True 10 10 30 30,
      mk_row s 3 True 10 10 40 40, mk_row s 4 True 10 10 50 50, mk_row s 5 False 0 0 50 50,
      mk_row s 6 False 0 0 50 50, mk_row s 7 True 10 10 60 60, mk_row s 8 True 10 10 70 70,
      mk_row s 9 True 10 10 80 80, mk_row s 10 True 10 10 90 90, mk_row s 11 True 10 10 100 100]"
  by (simp add: sim_eval scenario_D_def)




section \<open>The claims\<close>

text \<open>
  C1. With non-negative rates, on every emitted row the cumulative spread area is at most
  the cumulative sampled area, and the backlog is their difference and is non-negative.
\<close>

theorem C1_spread_within_sampled:
  assumes "0 \<le> effective_sampling_ha_per_workday c"
    and "0 \<le> spreading_ha_per_workday c"
    and "i < length (simulate c)"
  shows "spread_cum_ha (simulate c ! i) \<le> sampled_cum_ha (simulate c ! i) \<and>
         backlog_ha (simulate c ! i) =
           sampled_cum_ha (simulate c ! i) - spread_cum_ha (simulate c ! i) \<and>
         0 \<le> backlog_ha (simulate c ! i)"
proof -
  have le: "spread_cum_ha (simulate c ! i) \<le> sampled_cum_ha (simulate c ! i)"
    by (rule simulate_ordered [OF assms(1) assms(3)])
  have "backlog_ha (simulate c ! i) =
          max (sampled_cum_ha (simulate c ! i) - spread_cum_ha (simulate c ! i)) 0"
    by (subst (1 2 3) simulate_nth [OF assms(3)]) (rule day_step_fields(8))
  with le show ?thesis by simp
qed

theorem C1_spread_within_sampled_witness:
  "0 \<le> effective_sampling_ha_per_workday (scenario_B 0 0 365) \<and>
   0 \<le> spreading_ha_per_workday (scenario_B 0 0 365) \<and>
   4 < length (simulate (scenario_B 0 0 365)) \<and>
   spread_cum_ha (simulate (scenario_B 0 0 365) ! 4) \<le>
     sampled_cum_ha (simulate (scenario_B 0 0 365) ! 4) \<and>
   backlog_ha (simulate (scenario_B 0 0 365) ! 4) =
     sampled_cum_ha (simulate (scenario_B 0 0 365) ! 4) -
     spread_cum_ha (simulate (scenario_B 0 0 365) ! 4) \<and>
   0 \<le> backlog_ha (simulate (scenario_B 0 0 365) ! 4)"
proof -
  have h1: "0 \<le> effective_sampling_ha_per_workday (scenario_B 0 0 365)"
    and h2: "0 \<le> spreading_ha_per_workday (scenario_B 0 0 365)"
    by (simp_all add: scenario_B_def)
  have h3: "4 < length (simulate (scenario_B 0 0 365))"
    by (simp add: scenario_B_rows)
  from C1_spread_within_sampled [OF h1 h2 h3] h1 h2 h3 show ?thesis by blast
qed




text \<open>
  C3 as the specification words it (the backlog is 80 on day 4) does not hold: with no lag
  5 ha are spread on each of the days 0 to 4 as well, so the backlog on day 4 is 75, and
  80 is never reached.
\<close>

theorem C3_scenario_B_backlog_counterexample:
  "backlog_ha (simulate (scenario_B 0 0 365) ! 4) = 75 \<and>
   backlog_ha (simulate (scenario_B 0 0 365) ! 4) \<noteq> 80 \<and>
   80 \<notin> set (map backlog_ha (simulate (scenario_B 0 0 365)))"
  by (simp add: scenario_B_rows) (simp add: mk_row_def)

text \<open>
  C3, amended. In scenario B with a day cap of at least 20, sampling finishes on day
  index 4 and spreading on day index 19 (the finish dates are the start date plus 4 and
  plus 19 days); the backlog rises to 75 on day 4 and then falls by 5 a day to 0 on
  day 19.
\<close>

theorem C3_scenario_B:
  assumes "20 \<le> n"
  shows "sampling_finish_date (scenario_B 0 s n) (simulate (scenario_B 0 s n)) = Inr (Some (s + 4)) \<and>
         spreading_finish_date (scenario_B 0 s n) (simulate (scenario_B 0 s n)) = Inr (Some (s + 19)) \<and>
         map backlog_ha (simulate (scenario_B 0 s n)) =
           [15, 30, 45, 60, 75, 70, 65, 60, 55, 50, 45, 40, 35, 30, 25, 20, 15, 10, 5, 0]"
proof -
  note rows = scenario_B_rows [OF assms, of s]
  have "sampling_finish_date (scenario_B 0 s n) (simulate (scenario_B 0 s n)) = Inr (Some (s + 4))"
    unfolding rows by (simp add: sampling_finish_date_def mk_row_def scenario_B_def)
  moreover
  have "spreading_finish_date (scenario_B 0 s n) (simulate (scenario_B 0 s n)) = Inr (Some (s + 19))"
    unfolding rows by (simp add: spreading_finish_date_def mk_row_def scenario_B_def)
  moreover
  have "map backlog_ha (simulate (scenario_B 0 s n)) =
           [15, 30, 45, 60, 75, 70, 65, 60, 55, 50, 45, 40, 35, 30, 25, 20, 15, 10, 5, 0]"
    unfolding rows by (simp add: mk_row_def)
  ultimately show ?thesis by blast
qed

theorem C3_scenario_B_witness:
  "(20::int) \<le> 365 \<and>
   sampling_finish_date (scenario_B 0 0 365) (simulate (scenario_B 0 0 365)) = Inr (Some 4) \<and>
   spreading_finish_date (scenario_B 0 0 365) (simulate (scenario_B 0 0 365)) = Inr (Some 19) \<and>
   map backlog_ha (simulate (scenario_B 0 0 365)) =
     [15, 30, 45, 60, 75, 70, 65, 60, 55, 50, 45, 40, 35, 30, 25, 20, 15, 10, 5, 0]"
proof -
  have h: "(20::int) \<le> 365" by simp
  from C3_scenario_B [OF h, of 0] show ?thesis by simp
qed

text \<open>
  C4. On a workday \<open>i\<close> at or after the lag, the spreading step reads the sampled total
  that already includes the area sampled on day \<open>i\<close> itself: the row's cumulative sampled
  area is the total before the day plus the day's sample, the ready backlog is that
  cumulative area minus the spread total before the day (or 0 if negative), and the amount
  spread is the least of the spreading rate, the ready backlog and the area left to spread
  when the ready backlog is positive and area is left to spread, and 0 otherwise.
\<close>

theorem C4_spreading_sees_same_day_sampling:
  assumes "i < length (simulate c)"
    and "is_workday (int i) (workdays_per_week c)"
    and "spreading_lag_days c \<le> int i"
  shows "sampled_cum_ha (simulate c ! i) =
           sampled_before (simulate c) i + sampled_today_ha (simulate c ! i) \<and>
         spread_today_ha (simulate c ! i) =
           (let ready_backlog =
                  max (sampled_cum_ha (simulate c ! i) - spread_before (simulate c) i) 0
            in if ready_backlog > 0 \<and> spread_before (simulate c) i < total_area_ha c
               then min (spreading_ha_per_workday c)
                      (min ready_backlog (total_area_ha c - spread_before (simulate c) i))
               else 0)"
proof -
  let ?sb = "sampled_before (simulate c) i" and ?pb = "spread_before (simulate c) i"
  have row: "simulate c ! i = day_step c i ?sb ?pb"
    by (rule simulate_nth [OF assms(1)])
  have "sampled_cum_ha (day_step c i ?sb ?pb) = ?sb + sampled_today_ha (day_step c i ?sb ?pb)"
    by (simp add: day_step_fields sampling_step_sum)
  moreover
  have "spread_today_ha (day_step c i ?sb ?pb) =
          fst (spreading_step c i True (sampled_cum_ha (day_step c i ?sb ?pb)) ?pb)"
    using assms(2) by (simp add: day_step_fields)
  then have "spread_today_ha (day_step c i ?sb ?pb) =
          (let ready_backlog = max (sampled_cum_ha (day_step c i ?sb ?pb) - ?pb) 0
           in if ready_backlog > 0 \<and> ?pb < total_area_ha c
              then min (spreading_ha_per_workday c)
                     (min ready_backlog (total_area_ha c - ?pb))
              else 0)"
    using assms(3) by (simp add: spreading_step_def Let_def)
  ultimately show ?thesis
    unfolding row [symmetric] by blast
qed

theorem C4_spreading_sees_same_day_sampling_witness:
  "0 < length (simulate (scenario_B 0 0 365)) \<and>
   is_workday (int 0) (workdays_per_week (scenario_B 0 0 365)) \<and>
   spreading_lag_days (scenario_B 0 0 365) \<le> int 0 \<and>
   sampled_before (simulate (scenario_B 0 0 365)) 0 = 0 \<and>
   sampled_today_ha (simulate (scenario_B 0 0 365) ! 0) = 20 \<and>
   sampled_cum_ha (simulate (scenario_B 0 0 365) ! 0) = 20 \<and>
   spread_before (simulate (scenario_B 0 0 365)) 0 = 0 \<and>
   spread_today_ha (simulate (scenario_B 0 0 365) ! 0) = 5"
proof -
  have h1: "0 < length (simulate (scenario_B 0 0 365))"
    by (simp add: scenario_B_rows)
  have h2: "is_workday (int 0) (workdays_per_week (scenario_B 0 0 365))"
    by (simp add: is_workday_def scenario_B_def)
  have h3: "spreading_lag_days (scenario_B 0 0 365) \<le> int 0"
    by (simp add: scenario_B_def)
  have sb: "sampled_before (simulate (scenario_B 0 0 365)) 0 = 0"
    and pb: "spread_before (simulate (scenario_B 0 0 365)) 0 = 0"
    by (simp_all add: sampled_before_def spread_before_def)
  have st: "sampled_today_ha (simulate (scenario_B 0 0 365) ! 0) = 20"
    by (simp add: scenario_B_rows) (simp add: mk_row_def)
  have f: "total_area_ha (scenario_B 0 0 365) = 100"
    "spreading_ha_per_workday (scenario_B 0 0 365) = 5"
    by (simp_all add: scenario_B_def)
  from C4_spreading_sees_same_day_sampling [OF h1 h2 h3]
  have "sampled_cum_ha (simulate (scenario_B 0 0 365) ! 0) = 20 \<and>
        spread_today_ha (simulate (scenario_B 0 0 365) ! 0) = 5"
    by (simp add: sb pb st Let_def f)
  with h1 h2 h3 sb pb st show ?thesis by simp
qed

text \<open>
  C5. With a non-negative total area and non-negative rates, both cumulative columns are
  non-decreasing from each emitted row to the next, and on every row both are at most the
  total area.
\<close>

theorem C5_cumulatives_monotone_and_bounded:
  assumes "0 \<le> total_area_ha c"
    and "0 \<le> effective_sampling_ha_per_workday c"
    and "0 \<le> spreading_ha_per_workday c"
  shows "(Suc i < length (simulate c) \<longrightarrow>
            sampled_cum_ha (simulate c ! i) \<le> sampled_cum_ha (simulate c ! Suc i) \<and>
            spread_cum_ha (simulate c ! i) \<le> spread_cum_ha (simulate c ! Suc i)) \<and>
         (j < length (simulate c) \<longrightarrow>
            sampled_cum_ha (simulate c ! j) \<le> total_area_ha c \<and>
            spread_cum_ha (simulate c ! j) \<le> total_area_ha c)"
proof (intro conjI impI)
  assume lt: "Suc i < length (simulate c)"
  have row: "simulate c ! Suc i =
      day_step c (Suc i) (sampled_cum_ha (simulate c ! i)) (spread_cum_ha (simulate c ! i))"
    using simulate_nth [OF lt] by (simp add: sampled_before_def spread_before_def)
  from day_step_mono [OF assms(2) assms(3)]
  show "sampled_cum_ha (simulate c ! i) \<le> sampled_cum_ha (simulate c ! Suc i)"
    and "spread_cum_ha (simulate c ! i) \<le> spread_cum_ha (simulate c ! Suc i)"
    unfolding row by blast+
next
  assume lt: "j < length (simulate c)"
  from simulate_bounded [OF assms(1) lt]
  show "sampled_cum_ha (simulate c ! j) \<le> total_area_ha c"
    and "spread_cum_ha (simulate c ! j) \<le> total_area_ha c"
    by blast+
qed

theorem C5_cumulatives_monotone_and_bounded_witness:
  "0 \<le> total_area_ha (scenario_B 0 0 365) \<and>
   0 \<le> effective_sampling_ha_per_workday (scenario_B 0 0 365) \<and>
   0 \<le> spreading_ha_per_workday (scenario_B 0 0 365) \<and>
   Suc 3 < length (simulate (scenario_B 0 0 365)) \<and>
   sampled_cum_ha (simulate (scenario_B 0 0 365) ! 3) \<le>
     sampled_cum_ha (simulate (scenario_B 0 0 365) ! Suc 3) \<and>
   spread_cum_ha (simulate (scenario_B 0 0 365) ! 3) \<le>
     spread_cum_ha (simulate (scenario_B 0 0 365) ! Suc 3) \<and>
   19 < length (simulate (scenario_B 0 0 365)) \<and>
   sampled_cum_ha (simulate (scenario_B 0 0 365) ! 19) \<le> total_area_ha (scenario_B 0 0 365) \<and>
   spread_cum_ha (simulate (scenario_B 0 0 365) ! 19) \<le> total_area_ha (scenario_B 0 0 365)"
proof -
  have h1: "0 \<le> total_area_ha (scenario_B 0 0 365)"
    and h2: "0 \<le> effective_sampling_ha_per_workday (scenario_B 0 0 365)"
    and h3: "0 \<le> spreading_ha_per_workday (scenario_B 0 0 365)"
    by (simp_all add: scenario_B_def)
  have l1: "Suc 3 < length (simulate (scenario_B 0 0 365))"
    and l2: "19 < length (simulate (scenario_B 0 0 365))"
    by (simp_all add: scenario_B_rows)
  from C5_cumulatives_monotone_and_bounded [OF h1 h2 h3, of 3 19] h1 h2 h3 l1 l2
  show ?thesis by blast
qed

text \<open>
  C6. On every day before the lag has passed nothing is spread, whatever the backlog.
  With no lag, spreading is already possible on day 0: if day 0 is a workday and the total
  area and both rates are positive, the amount spread on day 0 is the least of the two
  rates and the total area, which is positive.
\<close>

theorem C6_lag_enforced:
  "(i < length (simulate c) \<and> int i < spreading_lag_days c \<longrightarrow>
      spread_today_ha (simulate c ! i) = 0) \<and>
   (spreading_lag_days c' = 0 \<and> 0 < max_sim_days c' \<and> is_workday 0 (workdays_per_week c') \<and>
    0 < total_area_ha c' \<and> 0 < effective_sampling_ha_per_workday c' \<and>
    0 < spreading_ha_per_workday c' \<longrightarrow>
      simulate c' \<noteq> [] \<and>
      spread_today_ha (simulate c' ! 0) =
        min (spreading_ha_per_workday c')
          (min (effective_sampling_ha_per_workday c') (total_area_ha c')) \<and>
      0 < spread_today_ha (simulate c' ! 0))"
proof (intro conjI impI)
  assume "i < length (simulate c) \<and> int i < spreading_lag_days c"
  then have lt: "i < length (simulate c)" and lag: "int i < spreading_lag_days c" by simp_all
  show "spread_today_ha (simulate c ! i) = 0"
    by (subst simulate_nth [OF lt]) (simp add: day_step_fields spreading_step_lag [OF lag])
next
  assume h: "spreading_lag_days c' = 0 \<and> 0 < max_sim_days c' \<and>
    is_workday 0 (workdays_per_week c') \<and> 0 < total_area_ha c' \<and>
    0 < effective_sampling_ha_per_workday c' \<and> 0 < spreading_ha_per_workday c'"
  then have pos: "0 < nat (max_sim_days c')" by simp
  then show ne: "simulate c' \<noteq> []"
    using sim_loop_Nil [of c' 0 0 0] by (simp add: simulate_def)
  have row: "simulate c' ! 0 = day_step c' 0 0 0"
    using pos by (simp add: simulate_def sim_loop_hd)
  have val: "spread_today_ha (day_step c' 0 0 0) =
      min (spreading_ha_per_workday c')
        (min (effective_sampling_ha_per_workday c') (total_area_ha c'))"
    using h by (auto simp add: day_step_fields sampling_step_def spreading_step_def Let_def
        min_def max_def)
  show "spread_today_ha (simulate c' ! 0) =
      min (spreading_ha_per_workday c')
        (min (effective_sampling_ha_per_workday c') (total_area_ha c'))"
    unfolding row by (rule val)
  show "0 < spread_today_ha (simulate c' ! 0)"
    unfolding row val using h by simp
qed

theorem C6_lag_enforced_witness:
  "1 < length (simulate (scenario_B 3 0 365)) \<and>
   int 1 < spreading_lag_days (scenario_B 3 0 365) \<and>
   spread_today_ha (simulate (scenario_B 3 0 365) ! 1) = 0 \<and>
   spreading_lag_days (scenario_B 0 0 365) = 0 \<and>
   0 < max_sim_days (scenario_B 0 0 365) \<and>
   is_workday 0 (workdays_per_week (scenario_B 0 0 365)) \<and>
   0 < total_area_ha (scenario_B 0 0 365) \<and>
   0 < effective_sampling_ha_per_workday (scenario_B 0 0 365) \<and>
   0 < spreading_ha_per_workday (scenario_B 0 0 365) \<and>
   spread_today_ha (simulate (scenario_B 0 0 365) ! 0) = 5"
proof -
  have a1: "1 < length (simulate (scenario_B 3 0 365))"
    by (simp add: scenario_C_rows)
  have a2: "int 1 < spreading_lag_days (scenario_B 3 0 365)"
    by (simp add: scenario_B_def)
  have b: "spreading_lag_days (scenario_B 0 0 365) = 0 \<and>
     0 < max_sim_days (scenario_B 0 0 365) \<and>
     is_workday 0 (workdays_per_week (scenario_B 0 0 365)) \<and>
     0 < total_area_ha (scenario_B 0 0 365) \<and>
     0 < effective_sampling_ha_per_workday (scenario_B 0 0 365) \<and>
     0 < spreading_ha_per_workday (scenario_B 0 0 365)"
    by (simp add: scenario_B_def is_workday_def)
  from C6_lag_enforced [of 1 "scenario_B 3 0 365" "scenario_B 0 0 365"] a1 a2 b
  have "spread_today_ha (simulate (scenario_B 3 0 365) ! 1) = 0"
    and "spread_today_ha (simulate (scenario_B 0 0 365) ! 0) =
      min (spreading_ha_per_workday (scenario_B 0 0 365))
        (min (effective_sampling_ha_per_workday (scenario_B 0 0 365))
           (total_area_ha (scenario_B 0 0 365)))"
    by blast+
  moreover have "total_area_ha (scenario_B 0 0 365) = 100"
    "effective_sampling_ha_per_workday (scenario_B 0 0 365) = 20"
    "spreading_ha_per_workday (scenario_B 0 0 365) = 5"
    by (simp_all add: scenario_B_def)
  ultimately have "spread_today_ha (simulate (scenario_B 3 0 365) ! 1) = 0"
    and "spread_today_ha (simulate (scenario_B 0 0 365) ! 0) = 5"
    by simp_all
  with a1 a2 b show ?thesis by blast
qed

text \<open>
  C7. \<open>is_workday d w\<close> holds exactly when \<open>d mod 7 < w\<close>; the \<open>workday\<close> column of row
  \<open>i\<close> is \<open>is_workday i workdays_per_week\<close>; and on a row whose day is not a workday
  nothing is sampled and nothing is spread.
\<close>

theorem C7_non_workday_no_op:
  "(is_workday d w \<longleftrightarrow> d mod 7 < w) \<and>
   (i < length (simulate c) \<longrightarrow>
      (workday (simulate c ! i) \<longleftrightarrow> is_workday (int i) (workdays_per_week c)) \<and>
      (\<not> workday (simulate c ! i) \<longrightarrow>
         sampled_today_ha (simulate c ! i) = 0 \<and> spread_today_ha (simulate c ! i) = 0))"
proof (intro conjI impI)
  show "is_workday d w \<longleftrightarrow> d mod 7 < w"
    by (simp add: is_workday_def)
next
  assume lt: "i < length (simulate c)"
  show "workday (simulate c ! i) \<longleftrightarrow> is_workday (int i) (workdays_per_week c)"
    by (subst simulate_nth [OF lt]) (simp add: day_step_fields)
next
  assume lt: "i < length (simulate c)" and off: "\<not> workday (simulate c ! i)"
  let ?sb = "sampled_before (simulate c) i" and ?pb = "spread_before (simulate c) i"
  have row: "simulate c ! i = day_step c i ?sb ?pb"
    by (rule simulate_nth [OF lt])
  from off have nw: "\<not> is_workday (int i) (workdays_per_week c)"
    unfolding row by (simp add: day_step_fields)
  show "sampled_today_ha (simulate c ! i) = 0"
    unfolding row using nw by (simp add: day_step_fields sampling_step_off)
  show "spread_today_ha (simulate c ! i) = 0"
    unfolding row using nw by (simp add: day_step_fields spreading_step_off)
qed

theorem C7_non_workday_no_op_witness:
  "(is_workday 5 5 \<longleftrightarrow> (5::int) mod 7 < 5) \<and>
   5 < length (simulate (scenario_D 0 365)) \<and>
   \<not> is_workday (int 5) (workdays_per_week (scenario_D 0 365)) \<and>
   \<not> workday (simulate (scenario_D 0 365) ! 5) \<and>
   sampled_today_ha (simulate (scenario_D 0 365) ! 5) = 0 \<and>
   spread_today_ha (simulate (scenario_D 0 365) ! 5) = 0"
proof -
  have lt: "5 < length (simulate (scenario_D 0 365))"
    by (simp add: scenario_D_rows)
  have nw: "\<not> is_workday (int 5) (workdays_per_week (scenario_D 0 365))"
    by (simp add: is_workday_def scenario_D_def)
  from C7_non_workday_no_op [of 5 5 5 "scenario_D 0 365"] lt nw show ?thesis
    by blast
qed

text \<open>
  C8. Scenario B run with no lag and with a lag of 3 days (day cap at least 23): the
  lagged run spreads nothing on days 0, 1 and 2, its spreading finish date is exactly
  3 days after that of the run without lag, and both runs have the same sampling
  finish date.
\<close>

theorem C8_lag_shifts_spreading_finish:
  assumes "23 \<le> n"
  shows "map spread_today_ha (take 3 (simulate (scenario_B 3 s n))) = [0, 0, 0] \<and>
         spreading_finish_date (scenario_B 0 s n) (simulate (scenario_B 0 s n)) =
           Inr (Some (s + 19)) \<and>
         spreading_finish_date (scenario_B 3 s n) (simulate (scenario_B 3 s n)) =
           Inr (Some (s + 19 + 3)) \<and>
         sampling_finish_date (scenario_B 0 s n) (simulate (scenario_B 0 s n)) =
           Inr (Some (s + 4)) \<and>
         sampling_finish_date (scenario_B 3 s n) (simulate (scenario_B 3 s n)) =
           sampling_finish_date (scenario_B 0 s n) (simulate (scenario_B 0 s n))"
proof -
  from assms have "20 \<le> n" by simp
  note rows0 = scenario_B_rows [OF this, of s]
  note rows3 = scenario_C_rows [OF assms, of s]
  have "map spread_today_ha (take 3 (simulate (scenario_B 3 s n))) = [0, 0, 0]"
    unfolding rows3 by (simp add: mk_row_def)
  moreover
  have "spreading_finish_date (scenario_B 0 s n) (simulate (scenario_B 0 s n)) =
      Inr (Some (s + 19))"
    unfolding rows0 by (simp add: spreading_finish_date_def mk_row_def scenario_B_def)
  moreover
  have "spreading_finish_date (scenario_B 3 s n) (simulate (scenario_B 3 s n)) =
      Inr (Some (s + 19 + 3))"
    unfolding rows3 by (simp add: spreading_finish_date_def mk_row_def scenario_B_def)
  moreover
  have s0: "sampling_finish_date (scenario_B 0 s n) (simulate (scenario_B 0 s n)) =
      Inr (Some (s + 4))"
    unfolding rows0 by (simp add: sampling_finish_date_def mk_row_def scenario_B_def)
  moreover
  have "sampling_finish_date (scenario_B 3 s n) (simulate (scenario_B 3 s n)) =
      Inr (Some (s + 4))"
    unfolding rows3 by (simp add: sampling_finish_date_def mk_row_def scenario_B_def)
  ultimately show ?thesis by simp
qed

theorem C8_lag_shifts_spreading_finish_witness:
  "(23::int) \<le> 365 \<and>
   map spread_today_ha (take 3 (simulate (scenario_B 3 0 365))) = [0, 0, 0] \<and>
   spreading_finish_date (scenario_B 0 0 365) (simulate (scenario_B 0 0 365)) = Inr (Some 19) \<and>
   spreading_finish_date (scenario_B 3 0 365) (simulate (scenario_B 3 0 365)) = Inr (Some 22) \<and>
   sampling_finish_date (scenario_B 0 0 365) (simulate (scenario_B 0 0 365)) = Inr (Some 4) \<and>
   sampling_finish_date (scenario_B 3 0 365) (simulate (scenario_B 3 0 365)) = Inr (Some 4)"
proof -
  have h: "(23::int) \<le> 365" by simp
  from C8_lag_shifts_spreading_finish [OF h, of 0] show ?thesis by simp
qed

text \<open>
  C9. Each of the three guarded divisions yields 0 without dividing when its divisor is
  not positive (total area, points per hectare, application rate), and none of them can
  raise. For widget values within the widgets' ranges the whole derivation succeeds with
  non-negative results, and a total area of 0 gives a density and a sampling rate of 0.
\<close>

theorem C9_zero_divide_guarded:
  "(total_area \<le> 0 \<longrightarrow> points_per_ha total_points total_area = Inr 0) \<and>
   (pph \<le> 0 \<longrightarrow> effective_sampling_ha_per_workday_of effective_points pph = Inr 0) \<and>
   (t \<le> 0 \<longrightarrow> spreading_ha_per_workday_of tonnes t = Inr 0) \<and>
   (\<exists>v. points_per_ha total_points total_area = Inr v) \<and>
   (\<exists>v. effective_sampling_ha_per_workday_of effective_points pph = Inr v) \<and>
   (\<exists>v. spreading_ha_per_workday_of tonnes t = Inr v) \<and>
   (widget_ranges i \<longrightarrow>
      (\<exists>d samp spr. derived_rates i = Inr (d, samp, spr) \<and> 0 \<le> d \<and> 0 \<le> samp \<and> 0 \<le> spr \<and>
         (in_total_area_ha i \<le> 0 \<longrightarrow> d = 0 \<and> samp = 0)))"
proof (intro conjI impI)
  show "\<exists>v. points_per_ha total_points total_area = Inr v"
    by (simp add: points_per_ha_def py_truediv_def)
  show "\<exists>v. effective_sampling_ha_per_workday_of effective_points pph = Inr v"
    by (simp add: effective_sampling_ha_per_workday_of_def py_truediv_def)
  show "\<exists>v. spreading_ha_per_workday_of tonnes t = Inr v"
    by (simp add: spreading_ha_per_workday_of_def py_truediv_def)
next
  assume "total_area \<le> 0"
  then show "points_per_ha total_points total_area = Inr 0"
    by (simp add: points_per_ha_def)
next
  assume "pph \<le> 0"
  then show "effective_sampling_ha_per_workday_of effective_points pph = Inr 0"
    by (simp add: effective_sampling_ha_per_workday_of_def)
next
  assume "t \<le> 0"
  then show "spreading_ha_per_workday_of tonnes t = Inr 0"
    by (simp add: spreading_ha_per_workday_of_def)
next
  assume w: "widget_ranges i"
  define d where "d = (if in_total_area_ha i > 0
      then real_of_int (in_total_points i) / in_total_area_ha i else 0)"
  define e where "e = real_of_int (in_sampling_people i) * in_points_per_person_per_week i /
      real_of_int (in_workdays_per_week i) / (1 + in_sampling_contingency_pct i / 100)"
  define samp where "samp = (if d > 0 then e / d else 0)"
  define spr where "spr = in_tonnes_per_day i / in_t_per_ha i"
  from w have area: "0 \<le> in_total_area_ha i" and pts: "0 \<le> in_total_points i"
    and ppl: "1 \<le> in_sampling_people i" and thr: "1 \<le> in_points_per_person_per_week i"
    and wpw: "in_workdays_per_week i \<in> {5, 6, 7}"
    and pct: "0 \<le> in_sampling_contingency_pct i"
    and tph: "1 / 10 \<le> in_t_per_ha i" and tpd: "0 \<le> in_tonnes_per_day i"
    by (simp_all add: widget_ranges_def)
  have pd: "points_per_ha (in_total_points i) (in_total_area_ha i) = Inr d"
    by (simp add: points_per_ha_def py_truediv_def d_def)
  from wpw have wpos: "0 < real_of_int (in_workdays_per_week i)" by auto
  from pct have fpos: "0 < 1 + in_sampling_contingency_pct i / 100" by simp
  have pe: "effective_points_per_workday (in_sampling_people i) (in_points_per_person_per_week i)
      (in_workdays_per_week i) (in_sampling_contingency_pct i) = Inr e"
    using wpos fpos by (simp add: effective_points_per_workday_def py_truediv_def Let_def e_def)
  have ps: "effective_sampling_ha_per_workday_of e d = Inr samp"
    by (simp add: effective_sampling_ha_per_workday_of_def py_truediv_def samp_def)
  from tph have tpos: "0 < in_t_per_ha i" by simp
  then have pp: "spreading_ha_per_workday_of (in_tonnes_per_day i) (in_t_per_ha i) = Inr spr"
    by (simp add: spreading_ha_per_workday_of_def py_truediv_def spr_def)
  have res: "derived_rates i = Inr (d, samp, spr)"
    by (simp add: derived_rates_def pd pe ps pp)
  from area pts have d0: "0 \<le> d" by (simp add: d_def)
  from ppl thr have "0 \<le> real_of_int (in_sampling_people i) * in_points_per_person_per_week i"
    by simp
  with wpos fpos have e0: "0 \<le> e" by (simp add: e_def)
  from e0 have s0: "0 \<le> samp" by (simp add: samp_def)
  from tpd tpos have p0: "0 \<le> spr" by (simp add: spr_def)
  have z: "in_total_area_ha i \<le> 0 \<longrightarrow> d = 0 \<and> samp = 0"
    by (simp add: d_def samp_def)
  from res d0 s0 p0 z
  show "\<exists>d samp spr. derived_rates i = Inr (d, samp, spr) \<and> 0 \<le> d \<and> 0 \<le> samp \<and> 0 \<le> spr \<and>
         (in_total_area_ha i \<le> 0 \<longrightarrow> d = 0 \<and> samp = 0)"
    by blast
qed

theorem C9_zero_divide_guarded_witness:
  "(0::real) \<le> 0 \<and> points_per_ha 13545 0 = Inr 0 \<and>
   effective_sampling_ha_per_workday_of 471 0 = Inr 0 \<and>
   spreading_ha_per_workday_of 80 0 = Inr 0 \<and>
   widget_ranges zero_area_inputs \<and> in_total_area_ha zero_area_inputs \<le> 0 \<and>
   derived_rates zero_area_inputs = Inr (0, 0, 2)"
proof -
  have w: "widget_ranges zero_area_inputs"
    by (simp add: widget_ranges_def zero_area_inputs_def)
  have a: "in_total_area_ha zero_area_inputs \<le> 0"
    by (simp add: zero_area_inputs_def)
  from C9_zero_divide_guarded [of 0 13545 0 471 0 80 zero_area_inputs] w a
  obtain d samp spr where "derived_rates zero_area_inputs = Inr (d, samp, spr)"
    and "d = 0" and "samp = 0"
    and g: "points_per_ha 13545 0 = Inr 0"
      "effective_sampling_ha_per_workday_of 471 0 = Inr 0"
      "spreading_ha_per_workday_of 80 0 = Inr 0"
    by auto
  moreover have "derived_rates zero_area_inputs = Inr (0, 0, 2)"
    by (simp add: derived_rates_def points_per_ha_def effective_points_per_workday_def
        effective_sampling_ha_per_workday_of_def spreading_ha_per_workday_of_def
        py_truediv_def zero_area_inputs_def Let_def)
  ultimately show ?thesis using w a by simp
qed

text \<open>
  C10. With a total area of 0 and a day cap of at least 1 the table has exactly one row,
  for day 0, with nothing sampled or spread, both totals and the backlog 0; the loop stops
  there because the stop test already holds, and both finish dates are the start date.
\<close>

theorem C10_zero_area_single_row:
  assumes "total_area_ha c = 0" and "1 \<le> max_sim_days c"
  shows "simulate c =
           [\<lparr> day = 0, date = start_date c, workday = is_workday 0 (workdays_per_week c),
              sampled_today_ha = 0, spread_today_ha = 0, sampled_cum_ha = 0,
              spread_cum_ha = 0, backlog_ha = 0 \<rparr>] \<and>
         fully_spread c (simulate c ! 0) \<and>
         sampling_finish_date c (simulate c) = Inr (Some (start_date c)) \<and>
         spreading_finish_date c (simulate c) = Inr (Some (start_date c))"
proof -
  have r: "day_step c 0 0 0 =
      \<lparr> day = 0, date = start_date c, workday = is_workday 0 (workdays_per_week c),
        sampled_today_ha = 0, spread_today_ha = 0, sampled_cum_ha = 0,
        spread_cum_ha = 0, backlog_ha = 0 \<rparr>"
    using assms(1) by (simp add: day_step_def sampling_step_def spreading_step_def Let_def)
  have full: "fully_spread c (day_step c 0 0 0)"
    unfolding r using assms(1) by (simp add: fully_spread_def)
  from assms(2) have "0 < nat (max_sim_days c)" by simp
  with full have rows: "simulate c = [day_step c 0 0 0]"
    unfolding simulate_def by (subst sim_loop.simps) (simp add: Let_def)
  have "sampling_finish_date c [day_step c 0 0 0] = Inr (Some (start_date c))"
    unfolding r using assms(1) by (simp add: sampling_finish_date_def)
  moreover
  have "spreading_finish_date c [day_step c 0 0 0] = Inr (Some (start_date c))"
    unfolding r using assms(1) by (simp add: spreading_finish_date_def)
  ultimately show ?thesis
    using full unfolding rows by (simp add: r)
qed

theorem C10_zero_area_single_row_witness:
  "total_area_ha zero_area_config = 0 \<and> 1 \<le> max_sim_days zero_area_config \<and>
   length (simulate zero_area_config) = 1 \<and>
   day (simulate zero_area_config ! 0) = 0 \<and>
   sampled_cum_ha (simulate zero_area_config ! 0) = 0 \<and>
   spread_cum_ha (simulate zero_area_config ! 0) = 0 \<and>
   sampling_finish_date zero_area_config (simulate zero_area_config) = Inr (Some 0) \<and>
   spreading_finish_date zero_area_config (simulate zero_area_config) = Inr (Some 0)"
proof -
  have h1: "total_area_ha zero_area_config = 0"
    and h2: "1 \<le> max_sim_days zero_area_config"
    and s: "start_date zero_area_config = 0"
    by (simp_all add: zero_area_config_def)
  note t = C10_zero_area_single_row [OF h1 h2]
  from t have rows: "simulate zero_area_config =
      [\<lparr> day = 0, date = start_date zero_area_config,
         workday = is_workday 0 (workdays_per_week zero_area_config),
         sampled_today_ha = 0, spread_today_ha = 0, sampled_cum_ha = 0,
         spread_cum_ha = 0, backlog_ha = 0 \<rparr>]"
    by (rule conjunct1)
  have c1: "length (simulate zero_area_config) = 1"
    and c2: "day (simulate zero_area_config ! 0) = 0"
    and c3: "sampled_cum_ha (simulate zero_area_config ! 0) = 0"
    and c4: "spread_cum_ha (simulate zero_area_config ! 0) = 0"
    unfolding rows by simp_all
  from t have c5: "sampling_finish_date zero_area_config (simulate zero_area_config) =
      Inr (Some 0)"
    and c6: "spreading_finish_date zero_area_config (simulate zero_area_config) =
      Inr (Some 0)"
    unfolding s by blast+
  from h1 h2 c1 c2 c3 c4 c5 c6 show ?thesis by blast
qed

end
